theory Spec2Isabelle
  imports Main "HOL-Library.AList"
begin

section \<open>Python values, dictionaries and errors\<close>

text \<open>
  The values that travel through the mapper and the session: request bodies, store
  responses, identifiers and keyword arguments. A \<open>datetime\<close> is represented by the
  text that its \<open>isoformat()\<close> returns; \<open>PObject\<close> is an opaque object (the store
  connection).
\<close>

datatype pyval =
    PNone
  | PBool bool
  | PInt int
  | PStr string
  | PDateTime string
  | PList "pyval list"
  | PDict "(string \<times> pyval) list"
  | PObject string

text \<open>A \<open>dict\<close> keeps its keys in insertion order: an association list.\<close>

type_synonym dict = "(string \<times> pyval) list"

text \<open>Python truthiness: what \<open>if v\<close> and \<open>not v\<close> test.\<close>

fun truthy :: "pyval \<Rightarrow> bool" where
  "truthy PNone = False"
| "truthy (PBool b) = b"
| "truthy (PInt n) = (n \<noteq> 0)"
| "truthy (PStr s) = (s \<noteq> [])"
| "truthy (PDateTime s) = True"
| "truthy (PList xs) = (xs \<noteq> [])"
| "truthy (PDict d) = (d \<noteq> [])"
| "truthy (PObject s) = True"

text \<open>
  A dict display \<open>{k1: v1, ..., **extra}\<close> and the merge \<open>{**a, **b}\<close>: the items are
  stored from left to right, a repeated key keeps its first position and takes the
  later value.
\<close>

definition dict_literal :: "('k \<times> 'v) list \<Rightarrow> ('k \<times> 'v) list" where
  "dict_literal items = foldl (\<lambda>d kv. AList.update (fst kv) (snd kv) d) [] items"

datatype error =
    KeyError string
  | IndexError
  | TypeError string
  | ValueError string
  | ValidationError
  | InvalidElasticsearchResponse
  | SessionError "(string \<times> pyval list) list"
  | StoreError string

text \<open>\<open>MISSING_ID = ValueError("'id' missing from model")\<close> (model.py, line 18).\<close>

definition MISSING_ID :: error where
  "MISSING_ID = ValueError (CHR 0x27 # ''id'' @ CHR 0x27 # '' missing from model'')"

section \<open>helpers.py: the refresh keyword\<close>

text \<open>\<open>str(r)\<close> of a bool and \<open>str.lower\<close> on ASCII text.\<close>

definition str_bool :: "bool \<Rightarrow> string" where
  "str_bool b = (if b then ''True'' else ''False'')"

definition lower_char :: "char \<Rightarrow> char" where
  "lower_char c =
     (let n = (of_char c :: nat) in if 65 \<le> n \<and> n \<le> 90 then char_of (n + 32) else c)"

definition lower :: "string \<Rightarrow> string" where
  "lower s = map lower_char s"

text \<open>\<open>return "wait_for" if r is None else str(r).lower()\<close>\<close>

definition refresh_keyword :: "bool option \<Rightarrow> string" where
  "refresh_keyword r = (case r of None \<Rightarrow> ''wait_for'' | Some b \<Rightarrow> lower (str_bool b))"

text \<open>\<open>a or b\<close> on optional booleans: \<open>a\<close> when it is truthy, else \<open>b\<close>.\<close>

definition py_or :: "bool option \<Rightarrow> bool option \<Rightarrow> bool option" where
  "py_or a b = (if a = Some True then a else b)"

section \<open>model.py: records\<close>

text \<open>
  A record instance: the optional \<open>id\<close> (\<open>PNone\<close> while unset), the schema's fields and
  the \<open>Meta.index\<close> of its class. The class itself (the pydantic constructor with its
  validators) is a parameter \<open>cls\<close> of the operations that construct or validate.
\<close>

record model =
  model_id :: pyval
  model_fields :: dict
  Meta_index :: string

text \<open>\<open>self.dict()\<close> and \<open>self.dict(exclude={"id"})\<close>.\<close>

definition model_dict :: "model \<Rightarrow> dict" where
  "model_dict m = (''id'', model_id m) # model_fields m"

definition dict_exclude :: "string list \<Rightarrow> dict \<Rightarrow> dict" where
  "dict_exclude ks d = filter (\<lambda>kv. fst kv \<notin> set ks) d"

text \<open>\<open>validate_model\<close>: \<open>type(self)(**self.dict())\<close>, which raises when a validator does.\<close>

definition validate_model :: "(dict \<Rightarrow> error + model) \<Rightarrow> model \<Rightarrow> error + bool" where
  "validate_model cls m = (case cls (model_dict m) of Inl e \<Rightarrow> Inl e | Inr _ \<Rightarrow> Inr True)"

fun isoformat_value :: "pyval \<Rightarrow> pyval" where
  "isoformat_value (PDateTime s) = PStr s"
| "isoformat_value v = v"

text \<open>
  \<open>to_es()\<close> as the session calls it, with no keyword arguments: after the validation,
  \<open>d = self.dict(exclude={"id"})\<close> with its top-level datetime values encoded.
\<close>

definition to_es_body :: "model \<Rightarrow> dict" where
  "to_es_body m =
     map (\<lambda>kv. (fst kv, isoformat_value (snd kv))) (dict_exclude [''id''] (model_dict m))"

definition to_es :: "(dict \<Rightarrow> error + model) \<Rightarrow> model \<Rightarrow> error + dict" where
  "to_es cls m =
     (case validate_model cls m of Inl e \<Rightarrow> Inl e | Inr _ \<Rightarrow> Inr (to_es_body m))"

section \<open>model.py: the bulk session\<close>

text \<open>
  \<open>actions\<close> is the \<open>defaultdict(list)\<close> of pending mutations by operation kind, in
  key insertion order; \<open>s_refresh\<close> is \<open>self._refresh\<close>; \<open>results\<close> holds what the last
  successful commit returned.
\<close>

record session =
  actions :: "(string \<times> dict list) list"
  s_refresh :: "bool option"
  results :: "(string \<times> pyval list) list"

definition Session_init :: "bool option \<Rightarrow> session" where
  "Session_init r = \<lparr>actions = [], s_refresh = r, results = []\<rparr>"

text \<open>\<open>self.actions.clear(); return self\<close>\<close>

definition Session_aenter :: "session \<Rightarrow> session" where
  "Session_aenter s = s\<lparr>actions := []\<rparr>"

text \<open>\<open>d[name].append(x)\<close> on a defaultdict: a missing key is added last.\<close>

fun bucket_append :: "string \<Rightarrow> 'a \<Rightarrow> (string \<times> 'a list) list \<Rightarrow> (string \<times> 'a list) list" where
  "bucket_append name x [] = [(name, [x])]"
| "bucket_append name x ((k, xs) # rest) =
     (if k = name then (k, xs @ [x]) # rest else (k, xs) # bucket_append name x rest)"

definition bucket :: "(string \<times> 'a list) list \<Rightarrow> string \<Rightarrow> 'a list" where
  "bucket d name = (case map_of d name of None \<Rightarrow> [] | Some xs \<Rightarrow> xs)"

text \<open>
  \<open>_action\<close>: \<open>self.actions[name].append(action); return len(self.actions[name]) - 1\<close>
\<close>

definition Session_action :: "session \<Rightarrow> string \<Rightarrow> dict \<Rightarrow> int \<times> session" where
  "Session_action s name action =
     (let s' = s\<lparr>actions := bucket_append name action (actions s)\<rparr>
      in (int (length (bucket (actions s') name)) - 1, s'))"

definition Session_index :: "session \<Rightarrow> pyval \<Rightarrow> string \<Rightarrow> dict option \<Rightarrow> int \<times> session" where
  "Session_index s body index extra =
     (let extra' = (case extra of None \<Rightarrow> [] | Some e \<Rightarrow> e);
          request = dict_literal
            ([(''_index'', PStr index), (''_op_type'', PStr ''index''), (''_source'', body)]
             @ extra')
      in Session_action s ''index'' request)"

definition Session_delete :: "session \<Rightarrow> pyval \<Rightarrow> string \<Rightarrow> int \<times> session" where
  "Session_delete s ident index =
     (let request = dict_literal
            [(''_id'', ident), (''_index'', PStr index), (''_op_type'', PStr ''delete'')]
      in Session_action s ''delete'' request)"

definition Session_create :: "session \<Rightarrow> pyval \<Rightarrow> pyval \<Rightarrow> string \<Rightarrow> int \<times> session" where
  "Session_create s body ident index =
     (let request = dict_literal
            [(''_id'', ident), (''_index'', PStr index), (''_op_type'', PStr ''create''),
             (''_source'', body)]
      in Session_action s ''create'' request)"

definition Session_update :: "session \<Rightarrow> pyval \<Rightarrow> pyval \<Rightarrow> string \<Rightarrow> int \<times> session" where
  "Session_update s body ident index =
     (let request = dict_literal
            [(''_index'', PStr index), (''_op_type'', PStr ''update''),
             (''_source'', PDict [(''doc'', body)]), (''_id'', ident)]
      in Session_action s ''update'' request)"

subsection \<open>The model-level operations (\<open>Session.SessionModel\<close>)\<close>

definition SessionModel_index ::
  "(dict \<Rightarrow> error + model) \<Rightarrow> session \<Rightarrow> model \<Rightarrow> dict option \<Rightarrow> (error + int) \<times> session" where
  "SessionModel_index cls s m extra =
     (case to_es cls m of
        Inl e \<Rightarrow> (Inl e, s)
      | Inr body \<Rightarrow>
          (let (i, s') = Session_index s (PDict body) (Meta_index m)
                           (Some (case extra of None \<Rightarrow> [] | Some e \<Rightarrow> e))
           in (Inr i, s')))"

definition SessionModel_update ::
  "(dict \<Rightarrow> error + model) \<Rightarrow> session \<Rightarrow> model \<Rightarrow> (error + int) \<times> session" where
  "SessionModel_update cls s m =
     (if \<not> truthy (model_id m) then (Inl MISSING_ID, s)
      else case to_es cls m of
        Inl e \<Rightarrow> (Inl e, s)
      | Inr body \<Rightarrow>
          (let (i, s') = Session_update s (PDict body) (model_id m) (Meta_index m)
           in (Inr i, s')))"

definition SessionModel_delete ::
  "(dict \<Rightarrow> error + model) \<Rightarrow> session \<Rightarrow> model \<Rightarrow> (error + int) \<times> session" where
  "SessionModel_delete cls s m =
     (if \<not> truthy (model_id m) then (Inl MISSING_ID, s)
      else case validate_model cls m of
        Inl e \<Rightarrow> (Inl e, s)
      | Inr _ \<Rightarrow>
          (let (i, s') = Session_delete s (model_id m) (Meta_index m)
           in (Inr i, s')))"

definition SessionModel_create ::
  "(dict \<Rightarrow> error + model) \<Rightarrow> session \<Rightarrow> model \<Rightarrow> (error + int) \<times> session" where
  "SessionModel_create cls s m =
     (if \<not> truthy (model_id m) then (Inl MISSING_ID, s)
      else case to_es cls m of
        Inl e \<Rightarrow> (Inl e, s)
      | Inr body \<Rightarrow>
          (let (i, s') = Session_create s (PDict body) (model_id m) (Meta_index m)
           in (Inr i, s')))"

subsection \<open>helpers.py: \<open>async_bulk\<close>\<close>

text \<open>
  The third-party helper \<open>elasticsearch.helpers.async_streaming_bulk\<close> is an
  asynchronous generator; the store and the network sit behind it. It is a parameter
  of the model: for the arguments it is called with, the finite sequence of what the
  successive \<open>anext\<close> calls do before the generator is exhausted. An \<open>anext\<close> either
  returns a pair \<open>(ok, item)\<close>, raises \<open>BulkIndexError\<close> (which carries a list
  \<open>errors\<close>), or raises another exception (a transport error, say). Once a generator
  has raised it is finished, and the next \<open>anext\<close> raises \<open>StopAsyncIteration\<close>.
\<close>

datatype stream_event =
    Yield bool dict
  | RaiseBulkIndexError "dict list"
  | RaiseOther string

text \<open>
  The call \<open>helpers.async_streaming_bulk(client, actions, *args,
  ignore_status=ignore_status, **kwargs)\<close>.
\<close>

record bulk_call =
  bc_client :: pyval
  bc_actions :: pyval
  bc_ignore_status :: pyval
  bc_kwargs :: dict

text \<open>
  The process-wide client: \<open>raw_connection\<close> is what \<open>get_client().raw_connection()\<close>
  returns (the connection object, or \<open>None\<close> before \<open>connect()\<close>).
\<close>

record env =
  raw_connection :: pyval
  async_streaming_bulk :: "bulk_call \<Rightarrow> stream_event list"

text \<open>\<open>v[key]\<close> on a value.\<close>

definition py_getitem :: "pyval \<Rightarrow> string \<Rightarrow> error + pyval" where
  "py_getitem v key =
     (case v of
        PDict d \<Rightarrow> (case map_of d key of None \<Rightarrow> Inl (KeyError key) | Some x \<Rightarrow> Inr x)
      | _ \<Rightarrow> Inl (TypeError ''subscript''))"

text \<open>
  The body of the loop of \<open>async_bulk\<close> after \<open>ok, item\<close> are bound, on the path
  \<open>stats_only = False\<close> (the counters \<open>success\<close> and \<open>failed\<close> are returned only when
  \<open>stats_only\<close> is set): \<open>action = list(item.keys())[0]\<close>, then the failure goes to
  \<open>errors[action]\<close> or the \<open>_id\<close> of the success to \<open>results[action]\<close>.
\<close>

definition bulk_step ::
  "bool \<Rightarrow> dict \<Rightarrow> (string \<times> pyval list) list \<times> (string \<times> pyval list) list
   \<Rightarrow> error + (string \<times> pyval list) list \<times> (string \<times> pyval list) list" where
  "bulk_step ok item acc =
     (case item of
        [] \<Rightarrow> Inl IndexError
      | (action, v) # _ \<Rightarrow>
          if \<not> ok then Inr (fst acc, bucket_append action v (snd acc))
          else (case py_getitem v ''_id'' of
                  Inl e \<Rightarrow> Inl e
                | Inr i \<Rightarrow> Inr (bucket_append action i (fst acc), snd acc)))"

text \<open>
  The \<open>while True\<close> loop over the generator. \<open>StopAsyncIteration\<close> (the end of the
  events) leaves the loop; \<open>BulkIndexError\<close> is caught and replaced by
  \<open>(False, e.errors[0])\<close>, after which the finished generator ends the loop at the next
  \<open>anext\<close>; any other exception propagates.
\<close>

fun bulk_loop ::
  "stream_event list \<Rightarrow> (string \<times> pyval list) list \<times> (string \<times> pyval list) list
   \<Rightarrow> error + (string \<times> pyval list) list \<times> (string \<times> pyval list) list" where
  "bulk_loop [] acc = Inr acc"
| "bulk_loop (Yield ok item # rest) acc =
     (case bulk_step ok item acc of Inl e \<Rightarrow> Inl e | Inr acc' \<Rightarrow> bulk_loop rest acc')"
| "bulk_loop (RaiseBulkIndexError errs # rest) acc =
     (case errs of [] \<Rightarrow> Inl IndexError | item # _ \<Rightarrow> bulk_step False item acc)"
| "bulk_loop (RaiseOther msg # rest) acc = Inl (StoreError msg)"

text \<open>
  \<open>async_bulk(**kw)\<close>: \<open>client\<close> and \<open>actions\<close> are required keyword-only arguments,
  \<open>ignore_status\<close> defaults to \<open>()\<close>, the remaining keywords go to the generator together
  with \<open>yield_ok = True\<close>. The result is \<open>(dict(results), dict(errors))\<close>; the second
  component lists the calls made to the generator. \<open>stats_only\<close> is taken at its
  default \<open>False\<close>: the only caller, \<open>Session.commit\<close>, never passes it
  (lemma \<open>commit_kwargs_dropped\<close>).
\<close>

definition async_bulk ::
  "(bulk_call \<Rightarrow> stream_event list) \<Rightarrow> dict
   \<Rightarrow> (error + (string \<times> pyval list) list \<times> (string \<times> pyval list) list) \<times> bulk_call list" where
  "async_bulk helper kw =
     (case map_of kw ''client'' of
        None \<Rightarrow> (Inl (TypeError ''client''), [])
      | Some client \<Rightarrow>
          (case map_of kw ''actions'' of
             None \<Rightarrow> (Inl (TypeError ''actions''), [])
           | Some acts \<Rightarrow>
               (let ignore_status =
                      (case map_of kw ''ignore_status'' of None \<Rightarrow> PList [] | Some v \<Rightarrow> v);
                    kwargs = AList.update ''yield_ok'' (PBool True)
                      (dict_exclude [''client'', ''actions'', ''stats_only'', ''ignore_status''] kw);
                    call = \<lparr>bc_client = client, bc_actions = acts,
                            bc_ignore_status = ignore_status, bc_kwargs = kwargs\<rparr>
                in (bulk_loop (helper call) ([], []), [call]))))"

subsection \<open>\<open>Session.commit\<close>\<close>

record commit_args =
  refresh :: "bool option"
  chunk_size :: "int option"
  async_bulk_kwargs :: "dict option"

text \<open>The defaults of \<open>commit(refresh=False, chunk_size=None, async_bulk_kwargs=None)\<close>.\<close>

definition commit_defaults :: commit_args where
  "commit_defaults = \<lparr>refresh = Some False, chunk_size = None, async_bulk_kwargs = None\<rparr>"

text \<open>
  The keyword dictionary that \<open>commit\<close> builds: its own keys win over
  \<open>async_bulk_kwargs\<close>, then every item with a falsy value is dropped.
\<close>

definition commit_kwargs :: "env \<Rightarrow> session \<Rightarrow> commit_args \<Rightarrow> dict" where
  "commit_kwargs e s a =
     (let abk = (case async_bulk_kwargs a of None \<Rightarrow> [] | Some d \<Rightarrow> d);
          kw_refresh = refresh_keyword (py_or (refresh a) (s_refresh s));
          kwargs =
            [(''client'', raw_connection e),
             (''actions'', PList (map PDict (concat (map snd (actions s))))),
             (''chunk_size'', (case chunk_size a of None \<Rightarrow> PNone | Some n \<Rightarrow> PInt n)),
             (''refresh'', PStr kw_refresh),
             (''raise_on_error'', PBool False),
             (''stats_only'', PBool False)]
      in filter (\<lambda>kv. truthy (snd kv)) (dict_literal (abk @ kwargs)))"

text \<open>
  \<open>commit\<close> returns the outcome (the results by operation kind, or the exception
  raised), the session afterwards and the calls made to the bulk helper.
\<close>

definition Session_commit ::
  "env \<Rightarrow> session \<Rightarrow> commit_args
   \<Rightarrow> (error + (string \<times> pyval list) list) \<times> session \<times> bulk_call list" where
  "Session_commit e s a =
     (if actions s = [] then (Inr [], s, [])
      else
        (let (r, sent) = async_bulk (async_streaming_bulk e) (commit_kwargs e s a);
             s' = s\<lparr>actions := []\<rparr>
         in case r of
              Inl err \<Rightarrow> (Inl err, s', sent)
            | Inr (res, errors) \<Rightarrow>
                if errors \<noteq> [] then (Inl (SessionError errors), s'\<lparr>results := res\<rparr>, sent)
                else (Inr res, s'\<lparr>results := res\<rparr>, sent)))"

text \<open>
  The call that a commit makes to the bulk helper when it makes one: the connection,
  all buffered mutations chained bucket after bucket, and the keywords that survive.
\<close>

definition commit_call :: "env \<Rightarrow> session \<Rightarrow> commit_args \<Rightarrow> bulk_call" where
  "commit_call e s a =
     (let kw = commit_kwargs e s a
      in \<lparr>bc_client = raw_connection e,
          bc_actions = PList (map PDict (concat (map snd (actions s)))),
          bc_ignore_status =
            (case map_of kw ''ignore_status'' of None \<Rightarrow> PList [] | Some v \<Rightarrow> v),
          bc_kwargs = AList.update ''yield_ok'' (PBool True)
            (dict_exclude [''client'', ''actions'', ''stats_only'', ''ignore_status''] kw)\<rparr>)"

subsection \<open>Sequences of enqueue calls\<close>

text \<open>
  The four enqueue methods of \<open>Session\<close> as one call type, and a caller that makes a
  list of such calls one after the other on the same session, collecting what each
  returns.
\<close>

datatype enqueue_call =
    Index pyval string "dict option"
  | Delete pyval string
  | Create pyval pyval string
  | Update pyval pyval string

fun op_kind :: "enqueue_call \<Rightarrow> string" where
  "op_kind (Index body index extra) = ''index''"
| "op_kind (Delete ident index) = ''delete''"
| "op_kind (Create body ident index) = ''create''"
| "op_kind (Update body ident index) = ''update''"

fun enqueue :: "session \<Rightarrow> enqueue_call \<Rightarrow> int \<times> session" where
  "enqueue s (Index body index extra) = Session_index s body index extra"
| "enqueue s (Delete ident index) = Session_delete s ident index"
| "enqueue s (Create body ident index) = Session_create s body ident index"
| "enqueue s (Update body ident index) = Session_update s body ident index"

fun run_calls :: "session \<Rightarrow> enqueue_call list \<Rightarrow> int list \<times> session" where
  "run_calls s [] = ([], s)"
| "run_calls s (c # cs) =
     (let (i, s1) = enqueue s c; (js, s2) = run_calls s1 cs in (i # js, s2))"

subsection \<open>Bulk indexing\<close>

text \<open>
  \<open>Session.bulk_index\<close>: \<open>[self.index(model, index=index) for model in collection]\<close>
\<close>

fun Session_bulk_index :: "session \<Rightarrow> pyval list \<Rightarrow> string \<Rightarrow> int list \<times> session" where
  "Session_bulk_index s [] index = ([], s)"
| "Session_bulk_index s (body # rest) index =
     (let (i, s1) = Session_index s body index None;
          (js, s2) = Session_bulk_index s1 rest index
      in (i # js, s2))"

text \<open>
  The class method \<open>ESModel.bulk_index(cls, collection)\<close>, for a class whose
  \<open>Meta.index\<close> is \<open>index\<close>: a new \<open>Session(refresh=True)\<close> is entered, the collection
  enqueued and committed with the default arguments, and \<open>results['index']\<close> returned.
  An exception of the commit leaves the \<open>async with\<close> block as it is. The second
  component is the collection as the caller finds it afterwards: no statement of the
  method, or of what it calls, assigns to the collection or to one of its items.
\<close>

definition ESModel_bulk_index ::
  "env \<Rightarrow> string \<Rightarrow> pyval list \<Rightarrow> (error + pyval list) \<times> pyval list \<times> bulk_call list" where
  "ESModel_bulk_index e index collection =
     (let session = Session_aenter (Session_init (Some True));
          (js, s1) = Session_bulk_index session collection index;
          (r, s2, sent) = Session_commit e s1 commit_defaults
      in case r of
           Inl err \<Rightarrow> (Inl err, collection, sent)
         | Inr res \<Rightarrow>
             (case map_of res ''index'' of
                None \<Rightarrow> (Inl (KeyError ''index''), collection, sent)
              | Some ids \<Rightarrow> (Inr ids, collection, sent)))"

text \<open>
  The model-level \<open>SessionModel.bulk_index(models, commit_kwargs)\<close>. Records are
  objects, and the method writes to them: the record objects live in a store that maps
  references to their state, and \<open>models\<close> is a list of references, in which the same
  record may occur more than once. First every record is validated, then every record
  is enqueued (\<open>to_es\<close> validates again), then the session is committed. Neither loop
  writes to a record.
\<close>

fun validate_all :: "(dict \<Rightarrow> error + model) \<Rightarrow> (nat \<Rightarrow> model) \<Rightarrow> nat list \<Rightarrow> error + unit" where
  "validate_all cls h [] = Inr ()"
| "validate_all cls h (r # rs) =
     (case validate_model cls (h r) of Inl e \<Rightarrow> Inl e | Inr _ \<Rightarrow> validate_all cls h rs)"

fun index_all ::
  "(dict \<Rightarrow> error + model) \<Rightarrow> session \<Rightarrow> (nat \<Rightarrow> model) \<Rightarrow> nat list
   \<Rightarrow> (error + int list) \<times> session" where
  "index_all cls s h [] = (Inr [], s)"
| "index_all cls s h (r # rs) =
     (case SessionModel_index cls s (h r) None of
        (Inl e, s1) \<Rightarrow> (Inl e, s1)
      | (Inr i, s1) \<Rightarrow>
          (case index_all cls s1 h rs of
             (Inl e, s2) \<Rightarrow> (Inl e, s2)
           | (Inr js, s2) \<Rightarrow> (Inr (i # js), s2)))"

text \<open>\<open>xs[i]\<close> for a list of length \<open>n\<close>: the position read, if there is one.\<close>

definition py_index :: "nat \<Rightarrow> int \<Rightarrow> nat option" where
  "py_index n i =
     (if 0 \<le> i \<and> i < int n then Some (nat i)
      else if - int n \<le> i \<and> i < 0 then Some (nat (int n + i))
      else None)"

text \<open>
  \<open>for i, created_id in zip(model_indices, results["index"], strict=True):
  models[i].id = created_id\<close>. Each assignment writes the field \<open>id\<close> of the object that
  \<open>models[i]\<close> refers to (\<open>set_id\<close>); the list itself is not changed. The strict \<open>zip\<close> raises
  \<open>ValueError\<close> when one argument ends before the other, after the pairs before that
  point have been consumed.
\<close>

definition set_id :: "(nat \<Rightarrow> model) \<Rightarrow> nat \<Rightarrow> pyval \<Rightarrow> nat \<Rightarrow> model" where
  "set_id h r created_id = h(r := (h r)\<lparr>model_id := created_id\<rparr>)"

fun assign_ids ::
  "int list \<Rightarrow> pyval list \<Rightarrow> nat list \<Rightarrow> (nat \<Rightarrow> model) \<Rightarrow> (error + unit) \<times> (nat \<Rightarrow> model)" where
  "assign_ids [] [] models h = (Inr (), h)"
| "assign_ids (i # js) (created_id # ids) models h =
     (case py_index (length models) i of
        None \<Rightarrow> (Inl IndexError, h)
      | Some k \<Rightarrow>
          assign_ids js ids models (set_id h (models ! k) created_id))"
| "assign_ids [] (created_id # ids) models h =
     (Inl (ValueError ''zip() argument 2 is longer than argument 1''), h)"
| "assign_ids (i # js) [] models h =
     (Inl (ValueError ''zip() argument 2 is shorter than argument 1''), h)"

text \<open>
  The result is what is returned (the list \<open>models\<close> itself) or raised, the store of
  record objects afterwards, the session afterwards and the calls made to the bulk
  helper.
\<close>

definition SessionModel_bulk_index ::
  "(dict \<Rightarrow> error + model) \<Rightarrow> env \<Rightarrow> session \<Rightarrow> (nat \<Rightarrow> model) \<Rightarrow> nat list
   \<Rightarrow> commit_args option
   \<Rightarrow> (error + nat list) \<times> (nat \<Rightarrow> model) \<times> session \<times> bulk_call list" where
  "SessionModel_bulk_index cls e s h models commit_kw =
     (case validate_all cls h models of
        Inl err \<Rightarrow> (Inl err, h, s, [])
      | Inr _ \<Rightarrow>
          (case index_all cls s h models of
             (Inl err, s1) \<Rightarrow> (Inl err, h, s1, [])
           | (Inr model_indices, s1) \<Rightarrow>
               (let a = (case commit_kw of None \<Rightarrow> commit_defaults | Some a \<Rightarrow> a);
                    (r, s2, sent) = Session_commit e s1 a
                in case r of
                     Inl err \<Rightarrow> (Inl err, h, s2, sent)
                   | Inr res \<Rightarrow>
                       (case map_of res ''index'' of
                          None \<Rightarrow> (Inl (KeyError ''index''), h, s2, sent)
                        | Some ids \<Rightarrow>
                            (case assign_ids model_indices ids models h of
                               (Inl err, h') \<Rightarrow> (Inl err, h', s2, sent)
                             | (Inr _, h') \<Rightarrow> (Inr models, h', s2, sent))))))"

section \<open>model.py: records from hits\<close>

text \<open>
  \<open>from_es(cls, data)\<close>: \<open>None\<close> for an empty hit; \<open>source = data.get("_source", {})\<close>
  and \<open>_id = data.get("_id")\<close>; \<open>InvalidElasticsearchResponse\<close> when \<open>not source or not
  _id\<close>; else \<open>model = cls(**source); model.id = _id\<close>. (\<open>**source\<close> needs a mapping.)
\<close>

definition from_es :: "(dict \<Rightarrow> error + model) \<Rightarrow> dict \<Rightarrow> error + model option" where
  "from_es cls data =
     (if data = [] then Inr None
      else
        (let source = (case map_of data ''_source'' of None \<Rightarrow> PDict [] | Some v \<Rightarrow> v);
             ident = (case map_of data ''_id'' of None \<Rightarrow> PNone | Some v \<Rightarrow> v)
         in if \<not> truthy source \<or> \<not> truthy ident then Inl InvalidElasticsearchResponse
            else (case source of
                    PDict src \<Rightarrow>
                      (case cls src of
                         Inl e \<Rightarrow> Inl e
                       | Inr m \<Rightarrow> Inr (Some (m\<lparr>model_id := ident\<rparr>)))
                  | _ \<Rightarrow> Inl (TypeError ''mapping''))))"

section \<open>model.py: index migration\<close>

text \<open>
  The requests that \<open>_Index.migrate\<close> sends to the client, in order, when none of them
  raises. \<open>index_name\<close> is \<open>Meta.index\<close>, \<open>now\<close> the text of
  \<open>datetime.utcnow().strftime("%Y%m%d-%H%M%S%f")\<close> and \<open>res_index\<close> the \<open>index\<close> entry of
  the body of the answer to \<open>indices.create\<close>, which \<open>migrate\<close> returns.
\<close>

datatype alias_action =
    Remove string string
  | Add string string

datatype client_call =
    IndicesCreate string
  | AsyncReindex string string
  | IndicesRefresh string
  | UpdateAliases "alias_action list"

definition pattern :: "string \<Rightarrow> string" where
  "pattern index_name = index_name @ ''-*''"

definition alias_of :: "string \<Rightarrow> string" where
  "alias_of index_name = index_name"

text \<open>\<open>s.replace("*", new)\<close>\<close>

definition replace_star :: "string \<Rightarrow> string \<Rightarrow> string" where
  "replace_star s new = concat (map (\<lambda>c. if c = CHR ''*'' then new else [c]) s)"

definition migrate :: "string \<Rightarrow> string \<Rightarrow> string \<Rightarrow> bool \<Rightarrow> bool \<Rightarrow> string \<times> client_call list" where
  "migrate index_name now res_index move_data update_alias =
     (let next_index = replace_star (pattern index_name) now
      in (res_index,
          [IndicesCreate next_index]
          @ (if move_data
             then [AsyncReindex (alias_of index_name) next_index, IndicesRefresh next_index]
             else [])
          @ (if update_alias
             then [UpdateAliases [Remove (alias_of index_name) (pattern index_name),
                                  Add (alias_of index_name) next_index]]
             else [])))"

fun is_alias_update :: "client_call \<Rightarrow> bool" where
  "is_alias_update (UpdateAliases acts) = True"
| "is_alias_update c = False"

section \<open>Concrete inputs\<close>

text \<open>
  The inputs at which the theorems below are evaluated. First a connected client whose
  bulk helper answers every call with the given events, and the answer of the store to
  a mutation that succeeded.
\<close>

definition answering :: "stream_event list \<Rightarrow> env" where
  "answering events =
     \<lparr>raw_connection = PObject ''AsyncElasticsearch'', async_streaming_bulk = (\<lambda>call. events)\<rparr>"

definition created :: "string \<Rightarrow> string \<Rightarrow> stream_event" where
  "created kind ident =
     Yield True [(kind, PDict [(''_id'', PStr ident), (''status'', PInt 201)])]"

text \<open>
  The record class \<open>Shirt\<close> of the test suite (\<open>tests/__init__.py\<close>): the keyword
  fields \<open>brand\<close> and \<open>color\<close>, both required and not empty, no other field allowed,
  \<open>color\<close> one of black and red, \<open>Meta.index = "shirts"\<close>; and a record of that class.
\<close>

definition Shirt :: "dict \<Rightarrow> error + model" where
  "Shirt d =
     (case (map_of d ''brand'', map_of d ''color'') of
        (Some b, Some c) \<Rightarrow>
          if list_all (\<lambda>k. k \<in> set [''id'', ''brand'', ''color'']) (map fst d)
             \<and> truthy b \<and> truthy c
             \<and> c \<in> set [PStr ''black'', PStr ''red'']
          then Inr \<lparr>model_id = (case map_of d ''id'' of None \<Rightarrow> PNone | Some i \<Rightarrow> i),
                    model_fields = [(''brand'', b), (''color'', c)],
                    Meta_index = ''shirts''\<rparr>
          else Inl ValidationError
      | _ \<Rightarrow> Inl ValidationError)"

definition shirt :: "pyval \<Rightarrow> string \<Rightarrow> string \<Rightarrow> model" where
  "shirt ident brand color =
     \<lparr>model_id = ident, model_fields = [(''brand'', PStr brand), (''color'', PStr color)],
      Meta_index = ''shirts''\<rparr>"

text \<open>A store of record objects: a black Zara shirt at reference 1, red Nike shirts elsewhere.\<close>

definition two_shirts :: "nat \<Rightarrow> model" where
  "two_shirts r =
     (if r = 1 then shirt PNone ''Zara'' ''black'' else shirt PNone ''Nike'' ''red'')"

text \<open>The \<open>id\<close> of a record that is passed as a mapping (\<open>None\<close> when it has none).\<close>

definition record_id :: "pyval \<Rightarrow> pyval" where
  "record_id r =
     (case r of
        PDict d \<Rightarrow> (case map_of d ''id'' of None \<Rightarrow> PNone | Some v \<Rightarrow> v)
      | _ \<Rightarrow> PNone)"

text \<open>
  A store that holds no document, behind the bulk helper, for calls whose actions are
  deletes: every delete is answered with status 404 and result \<open>not_found\<close>. The helper
  sends the actions in chunks of \<open>chunk_size\<close> (500 by default). With \<open>raise_on_error\<close>
  at its default \<open>True\<close> it yields nothing once an action of the chunk has failed and
  raises \<open>BulkIndexError\<close> with the failures of the chunk at the end of the chunk ("by
  default we raise a \<open>BulkIndexError\<close> when we encounter an error", docstring of
  \<open>async_bulk\<close>); with \<open>raise_on_error\<close> false it yields every failure as
  \<open>(False, item)\<close>.
\<close>

definition not_found :: "pyval \<Rightarrow> dict" where
  "not_found action =
     [(''delete'',
       PDict [(''_id'', (case py_getitem action ''_id'' of Inr i \<Rightarrow> i | Inl _ \<Rightarrow> PNone)),
              (''status'', PInt 404), (''result'', PStr ''not_found'')])]"

definition missing_documents :: "bulk_call \<Rightarrow> stream_event list" where
  "missing_documents call =
     (let items = (case bc_actions call of PList acts \<Rightarrow> map not_found acts | _ \<Rightarrow> []);
          raise_on_error =
            (case map_of (bc_kwargs call) ''raise_on_error'' of
               None \<Rightarrow> True | Some v \<Rightarrow> truthy v);
          size = (case map_of (bc_kwargs call) ''chunk_size'' of
                    Some (PInt n) \<Rightarrow> nat n | _ \<Rightarrow> 500)
      in if raise_on_error
         then (if items = [] then [] else [RaiseBulkIndexError (take size items)])
         else map (Yield False) items)"

definition empty_store :: env where
  "empty_store =
     \<lparr>raw_connection = PObject ''AsyncElasticsearch'', async_streaming_bulk = missing_documents\<rparr>"

section \<open>Properties\<close>

lemma bucket_append_same: "bucket (bucket_append name x d) name = bucket d name @ [x]"
  by (induction d) (auto simp: bucket_def)

lemma bucket_append_other:
  "k \<noteq> name \<Longrightarrow> bucket (bucket_append name x d) k = bucket d k"
  by (induction d) (auto simp: bucket_def)

text \<open>
  C10. Entering the scope of a session (\<open>__aenter__\<close>) clears the buffer of pending
  mutations: whatever was enqueued on the session object before is discarded, and the
  session starts its scope with an empty buffer; nothing else of the session changes.
\<close>

theorem aenter_clears_buffer:
  "actions (Session_aenter s) = []
   \<and> s_refresh (Session_aenter s) = s_refresh s
   \<and> results (Session_aenter s) = results s"
  by (simp add: Session_aenter_def)

subsection \<open>Enqueueing\<close>

lemma Session_action_eval:
  "Session_action s name request =
     (int (length (bucket (actions s) name)),
      s\<lparr>actions := bucket_append name request (actions s)\<rparr>)"
  by (simp add: Session_action_def Let_def bucket_append_same)

lemma enqueue_action:
  "\<exists>request. enqueue s c =
     (int (length (bucket (actions s) (op_kind c))),
      s\<lparr>actions := bucket_append (op_kind c) request (actions s)\<rparr>)"
  by (cases c)
     (auto simp add: Session_index_def Session_delete_def Session_create_def Session_update_def
        Session_action_eval Let_def)

lemma enqueue_bucket_length:
  "length (bucket (actions (snd (enqueue s c))) k) =
     length (bucket (actions s) k) + (if op_kind c = k then 1 else 0)"
proof -
  obtain request where "enqueue s c =
     (int (length (bucket (actions s) (op_kind c))),
      s\<lparr>actions := bucket_append (op_kind c) request (actions s)\<rparr>)"
    using enqueue_action by blast
  then show ?thesis
    by (simp add: bucket_append_same bucket_append_other)
qed

lemma fst_run_calls_Cons:
  "fst (run_calls s (c # cs)) = fst (enqueue s c) # fst (run_calls (snd (enqueue s c)) cs)"
  by (simp add: Let_def case_prod_unfold)

lemma run_calls_nth:
  "j < length cs \<Longrightarrow>
   fst (run_calls s cs) ! j =
     int (length (bucket (actions s) (op_kind (cs ! j))))
     + int (length (filter (\<lambda>c. op_kind c = op_kind (cs ! j)) (take j cs)))"
proof (induction cs arbitrary: s j)
  case Nil
  then show ?case by simp
next
  case (Cons c cs)
  have i: "fst (enqueue s c) = int (length (bucket (actions s) (op_kind c)))"
    using enqueue_action [of s c] by auto
  show ?case
  proof (cases j)
    case 0
    then show ?thesis using i by (simp add: fst_run_calls_Cons del: run_calls.simps)
  next
    case (Suc j')
    with Cons.prems have "j' < length cs" by simp
    from Cons.IH [OF this, of "snd (enqueue s c)"] show ?thesis
      using Suc by (simp add: fst_run_calls_Cons enqueue_bucket_length del: run_calls.simps)
  qed
qed

text \<open>
  C6. Every enqueue call (index, create, update, delete), on any session, appends its
  mutation at the end of the bucket of its own operation kind, leaves the other buckets
  as they are, and returns the 0-based position of the appended mutation in that
  bucket. So in any sequence of calls the \<open>j\<close>-th call returns the size that the bucket
  of its kind had before the sequence plus the number of earlier calls of the same
  kind; on a session whose buffer is empty, the \<open>k\<close>-th enqueue of a kind returns
  \<open>k - 1\<close>, however many mutations of other kinds come before or between.
\<close>

theorem enqueue_returns_position_in_bucket:
  "fst (enqueue s c) = int (length (bucket (actions s) (op_kind c)))
   \<and> (\<exists>request.
         bucket (actions (snd (enqueue s c))) (op_kind c) =
           bucket (actions s) (op_kind c) @ [request]
         \<and> bucket (actions (snd (enqueue s c))) (op_kind c) ! nat (fst (enqueue s c)) = request)
   \<and> (\<forall>k. k \<noteq> op_kind c \<longrightarrow>
         bucket (actions (snd (enqueue s c))) k = bucket (actions s) k)
   \<and> (\<forall>j < length cs.
         fst (run_calls s cs) ! j =
           int (length (bucket (actions s) (op_kind (cs ! j))))
           + int (length (filter (\<lambda>c'. op_kind c' = op_kind (cs ! j)) (take j cs))))
   \<and> (actions s = [] \<longrightarrow>
        (\<forall>j < length cs.
           fst (run_calls s cs) ! j =
             int (length (filter (\<lambda>c'. op_kind c' = op_kind (cs ! j)) (take j cs)))))"
proof -
  obtain request where e: "enqueue s c =
     (int (length (bucket (actions s) (op_kind c))),
      s\<lparr>actions := bucket_append (op_kind c) request (actions s)\<rparr>)"
    using enqueue_action by blast
  have 1: "fst (enqueue s c) = int (length (bucket (actions s) (op_kind c)))"
    using e by simp
  have 2: "bucket (actions (snd (enqueue s c))) (op_kind c) =
             bucket (actions s) (op_kind c) @ [request]
           \<and> bucket (actions (snd (enqueue s c))) (op_kind c) ! nat (fst (enqueue s c)) = request"
    using e by (simp add: bucket_append_same)
  have 3: "\<forall>k. k \<noteq> op_kind c \<longrightarrow>
         bucket (actions (snd (enqueue s c))) k = bucket (actions s) k"
    using e by (simp add: bucket_append_other)
  have 4: "\<forall>j < length cs.
         fst (run_calls s cs) ! j =
           int (length (bucket (actions s) (op_kind (cs ! j))))
           + int (length (filter (\<lambda>c'. op_kind c' = op_kind (cs ! j)) (take j cs)))"
    by (simp add: run_calls_nth)
  have 5: "actions s = [] \<longrightarrow>
        (\<forall>j < length cs.
           fst (run_calls s cs) ! j =
             int (length (filter (\<lambda>c'. op_kind c' = op_kind (cs ! j)) (take j cs))))"
    by (simp add: run_calls_nth bucket_def)
  from 1 2 3 4 5 show ?thesis by blast
qed

theorem enqueue_returns_position_in_bucket_witness:
  "fst (enqueue (Session_init None) (Delete (PStr ''7'') ''shirts'')) = 0
   \<and> fst (run_calls (Session_init None)
        [Index (PDict []) ''shirts'' None, Delete (PStr ''7'') ''shirts'',
         Index (PDict []) ''events'' None, Delete (PStr ''8'') ''shirts'',
         Update (PDict []) (PStr ''9'') ''shirts'']) ! 2 = 1
   \<and> fst (run_calls (Session_init None)
        [Index (PDict []) ''shirts'' None, Delete (PStr ''7'') ''shirts'',
         Index (PDict []) ''events'' None, Delete (PStr ''8'') ''shirts'',
         Update (PDict []) (PStr ''9'') ''shirts'']) ! 4 = 0"
proof -
  let ?s = "Session_init None"
  let ?c = "Delete (PStr ''7'') ''shirts''"
  let ?cs = "[Index (PDict []) ''shirts'' None, Delete (PStr ''7'') ''shirts'',
         Index (PDict []) ''events'' None, Delete (PStr ''8'') ''shirts'',
         Update (PDict []) (PStr ''9'') ''shirts'']"
  note t = enqueue_returns_position_in_bucket [of ?s ?c ?cs]
  have fresh: "actions ?s = []"
    by (simp add: Session_init_def)
  from t have first: "fst (enqueue ?s ?c) = int (length (bucket (actions ?s) (op_kind ?c)))"
    by (rule conjunct1)
  from t fresh have seq: "\<forall>j < length ?cs. fst (run_calls ?s ?cs) ! j =
      int (length (filter (\<lambda>c'. op_kind c' = op_kind (?cs ! j)) (take j ?cs)))"
    by blast
  have "fst (run_calls ?s ?cs) ! 2 = 1"
    using seq [rule_format, of 2] by simp
  moreover have "fst (run_calls ?s ?cs) ! 4 = 0"
    using seq [rule_format, of 4] by simp
  moreover have "fst (enqueue ?s ?c) = 0"
    using first fresh by (simp add: bucket_def)
  ultimately show ?thesis by simp
qed

subsection \<open>Missing identifiers\<close>

text \<open>
  C5, as the code has it. The model-level operations, which take a record, check the
  identifier: an update or a delete of a record whose \<open>id\<close> is unset (\<open>None\<close>) fails at
  enqueue time with \<open>MISSING_ID\<close>, before any validation and with no call to the store,
  and the session is left as it was, so nothing is appended to the buffer. The raw
  operations \<open>Session.update\<close> and \<open>Session.delete\<close> make no check: they append the
  mutation with the identifier they are given, whatever it is, and return its position.
\<close>

theorem missing_id_fails_at_enqueue:
  "(model_id m = PNone \<longrightarrow>
      SessionModel_update cls s m = (Inl MISSING_ID, s)
      \<and> SessionModel_delete cls s m = (Inl MISSING_ID, s))
   \<and> Session_update s body ident index =
       (int (length (bucket (actions s) ''update'')),
        s\<lparr>actions := bucket_append ''update''
            [(''_index'', PStr index), (''_op_type'', PStr ''update''),
             (''_source'', PDict [(''doc'', body)]), (''_id'', ident)]
            (actions s)\<rparr>)
   \<and> Session_delete s ident index =
       (int (length (bucket (actions s) ''delete'')),
        s\<lparr>actions := bucket_append ''delete''
            [(''_id'', ident), (''_index'', PStr index), (''_op_type'', PStr ''delete'')]
            (actions s)\<rparr>)"
  by (simp add: SessionModel_update_def SessionModel_delete_def Session_update_def
      Session_delete_def Session_action_eval dict_literal_def Let_def)

theorem missing_id_fails_at_enqueue_witness:
  "SessionModel_update Shirt (Session_init None) (shirt PNone ''Adidas'' ''red'')
     = (Inl MISSING_ID, Session_init None)
   \<and> SessionModel_delete Shirt (Session_init (Some True)) (shirt PNone ''Adidas'' ''black'')
     = (Inl MISSING_ID, Session_init (Some True))"
proof -
  have "model_id (shirt PNone ''Adidas'' ''red'') = PNone"
    and "model_id (shirt PNone ''Adidas'' ''black'') = PNone"
    by (simp_all add: shirt_def)
  then show ?thesis
    using missing_id_fails_at_enqueue [of "shirt PNone ''Adidas'' ''red''" Shirt "Session_init None"]
      missing_id_fails_at_enqueue [of "shirt PNone ''Adidas'' ''black''" Shirt
        "Session_init (Some True)"]
    by simp
qed

text \<open>
  C5 as stated fails: a raw delete and a raw update with no identifier (\<open>None\<close>) do not
  fail at enqueue time. Each appends its mutation, with \<open>_id\<close> \<open>None\<close>, to the buffer and
  returns position 0.
\<close>

theorem raw_enqueue_without_id_is_appended:
  "Session_delete (Session_init None) PNone ''shirts'' =
     (0, \<lparr>actions = [(''delete'',
                       [[(''_id'', PNone), (''_index'', PStr ''shirts''),
                         (''_op_type'', PStr ''delete'')]])],
          s_refresh = None, results = []\<rparr>)
   \<and> Session_update (Session_init None) (PDict [(''color'', PStr ''red'')]) PNone ''shirts'' =
     (0, \<lparr>actions = [(''update'',
                       [[(''_index'', PStr ''shirts''), (''_op_type'', PStr ''update''),
                         (''_source'', PDict [(''doc'', PDict [(''color'', PStr ''red'')])]),
                         (''_id'', PNone)]])],
          s_refresh = None, results = []\<rparr>)"
  by (simp add: Session_delete_def Session_update_def Session_action_eval dict_literal_def
      Let_def Session_init_def bucket_def)

subsection \<open>Dictionaries\<close>

lemma map_of_foldl_update:
  "map_of (foldl (\<lambda>d kv. AList.update (fst kv) (snd kv) d) d items) k =
     (case map_of (rev items) k of Some v \<Rightarrow> Some v | None \<Rightarrow> map_of d k)"
  by (induction items arbitrary: d)
     (auto simp: AList.update_conv' map_add_def split: option.splits)

lemma map_of_dict_literal: "map_of (dict_literal items) k = map_of (rev items) k"
  by (simp add: dict_literal_def map_of_foldl_update split: option.splits)

lemma distinct_foldl_update:
  "distinct (map fst d) \<Longrightarrow>
   distinct (map fst (foldl (\<lambda>d kv. AList.update (fst kv) (snd kv) d) d items))"
  by (induction items arbitrary: d) (auto simp: AList.distinct_update)

lemma distinct_dict_literal: "distinct (map fst (dict_literal items))"
  by (simp add: dict_literal_def distinct_foldl_update)

lemma map_of_filter_values:
  "distinct (map fst d) \<Longrightarrow>
   map_of (filter (\<lambda>kv. P (snd kv)) d) k =
     (case map_of d k of None \<Rightarrow> None | Some v \<Rightarrow> if P v then Some v else None)"
  by (induction d) (auto split: option.splits simp: map_of_eq_None_iff image_iff)

lemma map_of_dict_exclude:
  "map_of (dict_exclude ks d) k = (if k \<in> set ks then None else map_of d k)"
  by (induction d) (auto simp: dict_exclude_def)

subsection \<open>The keywords of a commit\<close>

lemma lower_True: "lower ''True'' = ''true''"
  by code_simp

lemma lower_False: "lower ''False'' = ''false''"
  by code_simp

lemma refresh_keyword_nonempty: "refresh_keyword r \<noteq> []"
  by (cases r) (auto simp: refresh_keyword_def str_bool_def lower_def)

lemma commit_kwargs_refresh:
  "map_of (commit_kwargs e s a) ''refresh'' =
     Some (PStr (refresh_keyword (py_or (refresh a) (s_refresh s))))"
  by (simp add: commit_kwargs_def Let_def map_of_filter_values distinct_dict_literal
      map_of_dict_literal refresh_keyword_nonempty)

text \<open>
  \<open>raise_on_error: False\<close> and \<open>stats_only: False\<close> never reach \<open>async_bulk\<close>: the keys
  of \<open>commit\<close> override those of \<open>async_bulk_kwargs\<close>, and the comprehension
  \<open>{k: v for k, v in kwargs.items() if v}\<close> then drops them with their falsy value.
\<close>

lemma commit_kwargs_dropped:
  "map_of (commit_kwargs e s a) ''raise_on_error'' = None
   \<and> map_of (commit_kwargs e s a) ''stats_only'' = None"
  by (simp add: commit_kwargs_def Let_def map_of_filter_values distinct_dict_literal
      map_of_dict_literal)

lemma async_bulk_sent:
  "c \<in> set (snd (async_bulk helper kw)) \<Longrightarrow>
   bc_kwargs c = AList.update ''yield_ok'' (PBool True)
     (dict_exclude [''client'', ''actions'', ''stats_only'', ''ignore_status''] kw)"
  by (auto simp: async_bulk_def Let_def split: option.splits)

lemma commit_sent:
  "snd (snd (Session_commit e s a)) =
     (if actions s = [] then [] else snd (async_bulk (async_streaming_bulk e) (commit_kwargs e s a)))"
  by (auto simp: Session_commit_def Let_def split: prod.splits sum.splits)

subsection \<open>What a commit does\<close>

lemma commit_kwargs_client:
  "map_of (commit_kwargs e s a) ''client'' =
     (if truthy (raw_connection e) then Some (raw_connection e) else None)"
  by (simp add: commit_kwargs_def Let_def map_of_filter_values distinct_dict_literal
      map_of_dict_literal)

lemma commit_kwargs_actions:
  "map_of (commit_kwargs e s a) ''actions'' =
     (if concat (map snd (actions s)) \<noteq> [] then
        Some (PList (map PDict (concat (map snd (actions s))))) else None)"
  by (simp add: commit_kwargs_def Let_def map_of_filter_values distinct_dict_literal
      map_of_dict_literal)

lemma Session_commit_call:
  assumes "actions s \<noteq> []" "truthy (raw_connection e)" "concat (map snd (actions s)) \<noteq> []"
  shows "Session_commit e s a =
     (case bulk_loop (async_streaming_bulk e (commit_call e s a)) ([], []) of
        Inl err \<Rightarrow> (Inl err, s\<lparr>actions := []\<rparr>, [commit_call e s a])
      | Inr (res, errors) \<Rightarrow>
          if errors \<noteq> [] then
            (Inl (SessionError errors), s\<lparr>actions := [], results := res\<rparr>, [commit_call e s a])
          else (Inr res, s\<lparr>actions := [], results := res\<rparr>, [commit_call e s a]))"
  using assms
  by (simp add: Session_commit_def async_bulk_def commit_kwargs_client commit_kwargs_actions
      commit_call_def Let_def split: sum.splits prod.splits)

lemma Session_index_eval:
  "Session_index s body index None =
     (int (length (bucket (actions s) ''index'')),
      s\<lparr>actions := bucket_append ''index''
          [(''_index'', PStr index), (''_op_type'', PStr ''index''), (''_source'', body)]
          (actions s)\<rparr>)"
  by (simp add: Session_index_def Session_action_def Let_def dict_literal_def bucket_append_same)

text \<open>
  C8. The refresh policy that a commit sends to the store is its own \<open>refresh\<close>
  argument when that is truthy and the session's otherwise (\<open>refresh or self._refresh\<close>),
  encoded by \<open>refresh_keyword\<close>: an unset policy (\<open>None\<close>) as \<open>"wait_for"\<close>, \<open>True\<close> as
  \<open>"true"\<close> and \<open>False\<close> as \<open>"false"\<close>. Every call to the bulk helper that a commit makes
  carries this text under the keyword \<open>refresh\<close>.
\<close>

theorem refresh_policy_encoding:
  "refresh_keyword None = ''wait_for''
   \<and> refresh_keyword (Some True) = ''true''
   \<and> refresh_keyword (Some False) = ''false''
   \<and> (\<forall>c \<in> set (snd (snd (Session_commit e s a))).
         map_of (bc_kwargs c) ''refresh'' =
           Some (PStr (refresh_keyword (py_or (refresh a) (s_refresh s)))))"
proof -
  have enc: "refresh_keyword None = ''wait_for''"
    "refresh_keyword (Some True) = ''true''" "refresh_keyword (Some False) = ''false''"
    by (simp_all add: refresh_keyword_def str_bool_def lower_True lower_False)
  have "map_of (bc_kwargs c) ''refresh'' =
          Some (PStr (refresh_keyword (py_or (refresh a) (s_refresh s))))"
    if "c \<in> set (snd (snd (Session_commit e s a)))" for c
  proof -
    from that have "c \<in> set (snd (async_bulk (async_streaming_bulk e) (commit_kwargs e s a)))"
      by (simp add: commit_sent split: if_splits)
    then have "bc_kwargs c = AList.update ''yield_ok'' (PBool True)
        (dict_exclude [''client'', ''actions'', ''stats_only'', ''ignore_status'']
           (commit_kwargs e s a))"
      by (rule async_bulk_sent)
    then show ?thesis
      by (simp add: AList.update_conv' map_of_dict_exclude commit_kwargs_refresh)
  qed
  with enc show ?thesis by blast
qed

theorem refresh_policy_encoding_witness:
  "\<exists>c. snd (snd (Session_commit (answering [created ''index'' ''a1''])
           (snd (Session_index (Session_init (Some True)) (PDict []) ''shirts'' None))
           commit_defaults)) = [c]
       \<and> map_of (bc_kwargs c) ''refresh'' = Some (PStr ''true'')"
proof -
  let ?s = "snd (Session_index (Session_init (Some True)) (PDict []) ''shirts'' None)"
  let ?e = "answering [created ''index'' ''a1'']"
  have a: "actions ?s \<noteq> []" "concat (map snd (actions ?s)) \<noteq> []" "s_refresh ?s = Some True"
    by (simp_all add: Session_index_eval Session_init_def)
  have e: "truthy (raw_connection ?e)"
    by (simp add: answering_def)
  have "snd (snd (Session_commit ?e ?s commit_defaults)) = [commit_call ?e ?s commit_defaults]"
    by (simp add: Session_commit_call [OF a(1) e a(2)] split: sum.splits prod.splits)
  moreover have "refresh_keyword (py_or (refresh commit_defaults) (s_refresh ?s)) = ''true''"
    using a refresh_policy_encoding [of ?e ?s commit_defaults]
    by (simp add: py_or_def commit_defaults_def)
  ultimately show ?thesis
    using refresh_policy_encoding [of ?e ?s commit_defaults]
    by auto
qed

text \<open>
  C4. Whatever a commit does (returns the results, raises \<open>SessionError\<close>, or lets an
  exception of the store call through), the buffer of pending mutations is empty
  afterwards; and a commit on an empty buffer returns the empty result map, leaves the
  session as it is and makes no call to the store.
\<close>

theorem commit_clears_buffer:
  "actions (fst (snd (Session_commit e s a))) = []
   \<and> Session_commit e (s\<lparr>actions := []\<rparr>) a = (Inr [], s\<lparr>actions := []\<rparr>, [])"
  by (auto simp: Session_commit_def Let_def split: prod.splits sum.splits)

subsection \<open>Bulk indexing of records\<close>

lemma foldl_bucket_append:
  "foldl (\<lambda>d x. bucket_append name x d) [(name, xs)] ys = [(name, xs @ ys)]"
  by (induction ys arbitrary: xs) simp_all

lemma foldl_bucket_append_empty:
  "foldl (\<lambda>d x. bucket_append name x d) [] ys = (if ys = [] then [] else [(name, ys)])"
  by (cases ys) (simp_all add: foldl_bucket_append)

lemma upt_first: "[n..<Suc (n + l)] = n # [Suc n..<Suc (n + l)]"
  by (simp add: upt_rec [of n] del: upt_Suc)

lemma validate_all_valid:
  "\<forall>r \<in> set ms. validate_model cls (h r) = Inr True \<Longrightarrow> validate_all cls h ms = Inr ()"
  by (induction ms) simp_all

lemma SessionModel_index_valid:
  "validate_model cls m = Inr True \<Longrightarrow>
   SessionModel_index cls s m None =
     (Inr (int (length (bucket (actions s) ''index''))),
      s\<lparr>actions := bucket_append ''index''
          [(''_index'', PStr (Meta_index m)), (''_op_type'', PStr ''index''),
           (''_source'', PDict (to_es_body m))]
          (actions s)\<rparr>)"
  by (simp add: SessionModel_index_def to_es_def Session_index_def Session_action_eval
      dict_literal_def Let_def)

lemma index_all_valid:
  "\<forall>r \<in> set ms. validate_model cls (h r) = Inr True \<Longrightarrow>
   index_all cls s h ms =
     (Inr (map int [length (bucket (actions s) ''index'') ..<
                    length (bucket (actions s) ''index'') + length ms]),
      s\<lparr>actions := foldl (\<lambda>d x. bucket_append ''index'' x d) (actions s)
          (map (\<lambda>r. [(''_index'', PStr (Meta_index (h r))), (''_op_type'', PStr ''index''),
                      (''_source'', PDict (to_es_body (h r)))]) ms)\<rparr>)"
proof (induction ms arbitrary: s)
  case Nil
  then show ?case by simp
next
  case (Cons m ms)
  then show ?case
    by (simp add: SessionModel_index_valid bucket_append_same upt_first del: upt_Suc)
qed

lemma index_all_fresh:
  assumes "actions s = []" and "\<forall>r \<in> set ms. validate_model cls (h r) = Inr True"
  shows "index_all cls s h ms =
     (Inr (map int [0..<length ms]),
      s\<lparr>actions := (if ms = [] then []
          else [(''index'',
                 map (\<lambda>r. [(''_index'', PStr (Meta_index (h r))),
                             (''_op_type'', PStr ''index''),
                             (''_source'', PDict (to_es_body (h r)))]) ms)])\<rparr>)"
  using assms by (simp add: index_all_valid foldl_bucket_append_empty bucket_def)

text \<open>
  The assignments of the loop, one after the other, and what they leave in the store:
  every record holds the identifier that was paired with its last occurrence in the
  list.
\<close>

lemma assign_ids_upt:
  "length ms = k + d \<Longrightarrow>
   assign_ids (map int [k..<k + d]) ids ms h =
     (if length ids = d then Inr ()
      else Inl (ValueError (if length ids < d then ''zip() argument 2 is shorter than argument 1''
                            else ''zip() argument 2 is longer than argument 1'')),
      foldl (\<lambda>h p. set_id h (fst p) (snd p)) h (zip (drop k ms) ids))"
proof (induction d arbitrary: k ids h)
  case 0
  then show ?case by (cases ids) simp_all
next
  case (Suc d)
  show ?case
  proof (cases ids)
    case Nil
    then show ?thesis by (simp add: upt_first del: upt_Suc)
  next
    case (Cons c cs)
    have k: "k < length ms" using Suc.prems by simp
    have len: "length ms = Suc k + d" using Suc.prems by simp
    have idx: "py_index (length ms) (int k) = Some k"
      using k by (simp add: py_index_def)
    have dk: "drop k ms = ms ! k # drop (Suc k) ms"
      using k by (simp add: Cons_nth_drop_Suc)
    show ?thesis
      using Suc.IH [OF len, of cs] idx
      by (simp add: Cons upt_first dk del: upt_Suc)
  qed
qed

lemma assign_ids_positions:
  "assign_ids (map int [0..<length ms]) ids ms h =
     (if length ids = length ms then Inr ()
      else Inl (ValueError (if length ids < length ms
                            then ''zip() argument 2 is shorter than argument 1''
                            else ''zip() argument 2 is longer than argument 1'')),
      foldl (\<lambda>h p. set_id h (fst p) (snd p)) h (zip ms ids))"
  using assign_ids_upt [of ms 0 "length ms" ids h] by simp

lemma foldl_assign:
  "foldl (\<lambda>h p. set_id h (fst p) (snd p)) h ps r =
     (case map_of (rev ps) r of None \<Rightarrow> h r | Some c \<Rightarrow> (h r)\<lparr>model_id := c\<rparr>)"
  by (induction ps arbitrary: h) (auto simp: set_id_def map_add_def split: option.splits)

lemma map_of_zip_first:
  "i < length xs \<Longrightarrow> length xs = length ys \<Longrightarrow> \<forall>j<i. xs ! j \<noteq> xs ! i \<Longrightarrow>
   map_of (zip xs ys) (xs ! i) = Some (ys ! i)"
proof (induction xs arbitrary: ys i)
  case Nil
  then show ?case by simp
next
  case (Cons x xs)
  then obtain y ys' where ys: "ys = y # ys'" by (cases ys) auto
  show ?case
  proof (cases i)
    case 0
    then show ?thesis by (simp add: ys)
  next
    case (Suc i')
    have "x \<noteq> xs ! i'"
      using Cons.prems(3) [rule_format, of 0] Suc by simp
    moreover have "\<forall>j<i'. xs ! j \<noteq> xs ! i'"
      using Cons.prems(3) Suc by auto
    ultimately show ?thesis
      using Cons.IH [of i' ys'] Cons.prems(1,2) Suc by (simp add: ys)
  qed
qed

lemma map_of_rev_zip_last:
  assumes "k < length ms" and "length ids = length ms"
    and "\<forall>j. k < j \<and> j < length ms \<longrightarrow> ms ! j \<noteq> ms ! k"
  shows "map_of (rev (zip ms ids)) (ms ! k) = Some (ids ! k)"
proof -
  let ?i = "length ms - Suc k"
  have i: "?i < length (rev ms)" using assms(1) by simp
  have at: "rev ms ! ?i = ms ! k" "rev ids ! ?i = ids ! k"
    using assms(1,2) by (simp_all add: rev_nth)
  have "\<forall>j<?i. rev ms ! j \<noteq> rev ms ! ?i"
  proof (intro allI impI)
    fix j assume j: "j < ?i"
    then have "rev ms ! j = ms ! (length ms - Suc j)" by (simp add: rev_nth)
    moreover have "k < length ms - Suc j" "length ms - Suc j < length ms" using j by simp_all
    ultimately show "rev ms ! j \<noteq> rev ms ! ?i" using assms(3) at(1) by simp
  qed
  from map_of_zip_first [OF i _ this, of "rev ids"] assms(2) at
  have "map_of (zip (rev ms) (rev ids)) (ms ! k) = Some (ids ! k)" by simp
  then show ?thesis using assms(2) by (simp add: zip_rev)
qed

lemma map_of_rev_zip_none: "r \<notin> set ms \<Longrightarrow> map_of (rev (zip ms ids)) r = None"
  by (auto simp: map_of_eq_None_iff dest: set_zip_leftD)

lemma SessionModel_bulk_index_valid:
  assumes "actions s = []" and "\<forall>r \<in> set ms. validate_model cls (h r) = Inr True"
  shows "SessionModel_bulk_index cls e s h ms kw =
     (case Session_commit e (snd (index_all cls s h ms))
             (case kw of None \<Rightarrow> commit_defaults | Some a \<Rightarrow> a) of
        (Inl err, s', sent) \<Rightarrow> (Inl err, h, s', sent)
      | (Inr res, s', sent) \<Rightarrow>
          (case map_of res ''index'' of
             None \<Rightarrow> (Inl (KeyError ''index''), h, s', sent)
           | Some ids \<Rightarrow>
               (case assign_ids (map int [0..<length ms]) ids ms h of
                  (Inl err, h') \<Rightarrow> (Inl err, h', s', sent)
                | (Inr _, h') \<Rightarrow> (Inr ms, h', s', sent))))"
  using assms
  by (simp add: SessionModel_bulk_index_def validate_all_valid index_all_fresh Let_def
      split: prod.splits sum.splits option.splits)

text \<open>
  C1. On a session with no pending mutation and for a list of valid records, the
  model-level \<open>bulk_index\<close> enqueues every record as an \<open>index\<close> mutation, in the order
  of the list, and the positions returned at enqueue time are \<open>0, 1, ..., n - 1\<close>; the
  commit then submits exactly these mutations in that order. When the commit returns
  results whose \<open>index\<close> list has one identifier per record, the assignments
  \<open>models[i].id = ids[i]\<close> are made in the order of the list and the list is returned:
  afterwards the record at position \<open>k\<close> holds the \<open>k\<close>-th identifier, unless the same
  record object occurs again later in the list (it then holds the identifier of its last
  occurrence), and no other field and no other record is changed. It raises when the
  counts disagree: \<open>ValueError\<close> when the \<open>index\<close> list has another length than the list
  of records, \<open>KeyError\<close> when the results have no \<open>index\<close> list. When the commit raises,
  its exception is raised and no record is changed.
\<close>

theorem bulk_index_assigns_ids:
  assumes "actions s = []" and "\<forall>r \<in> set ms. validate_model cls (h r) = Inr True"
  shows
  "index_all cls s h ms =
     (Inr (map int [0..<length ms]),
      s\<lparr>actions := (if ms = [] then []
          else [(''index'',
                 map (\<lambda>r. [(''_index'', PStr (Meta_index (h r))),
                             (''_op_type'', PStr ''index''),
                             (''_source'', PDict (to_es_body (h r)))]) ms)])\<rparr>)
   \<and> (ms \<noteq> [] \<and> truthy (raw_connection e) \<longrightarrow>
        (\<exists>call. snd (snd (snd (SessionModel_bulk_index cls e s h ms kw))) = [call]
           \<and> bc_actions call =
               PList (map (\<lambda>r. PDict [(''_index'', PStr (Meta_index (h r))),
                                      (''_op_type'', PStr ''index''),
                                      (''_source'', PDict (to_es_body (h r)))]) ms)))
   \<and> (Session_commit e (snd (index_all cls s h ms))
          (case kw of None \<Rightarrow> commit_defaults | Some a \<Rightarrow> a) = (Inr res, s', sent)
        \<and> map_of res ''index'' = Some ids \<and> length ids = length ms \<longrightarrow>
        SessionModel_bulk_index cls e s h ms kw =
          (Inr ms,
           foldl (\<lambda>h p. set_id h (fst p) (snd p)) h (zip ms ids),
           s', sent)
        \<and> (\<forall>k < length ms. (\<forall>j. k < j \<and> j < length ms \<longrightarrow> ms ! j \<noteq> ms ! k) \<longrightarrow>
              fst (snd (SessionModel_bulk_index cls e s h ms kw)) (ms ! k) =
                (h (ms ! k))\<lparr>model_id := ids ! k\<rparr>)
        \<and> (distinct ms \<longrightarrow>
              map (fst (snd (SessionModel_bulk_index cls e s h ms kw))) ms =
                map (\<lambda>(r, c). (h r)\<lparr>model_id := c\<rparr>) (zip ms ids))
        \<and> (\<forall>r. r \<notin> set ms \<longrightarrow>
              fst (snd (SessionModel_bulk_index cls e s h ms kw)) r = h r)
        \<and> (\<forall>r. model_fields (fst (snd (SessionModel_bulk_index cls e s h ms kw)) r) =
                  model_fields (h r)
               \<and> Meta_index (fst (snd (SessionModel_bulk_index cls e s h ms kw)) r) =
                  Meta_index (h r)))
   \<and> (Session_commit e (snd (index_all cls s h ms))
          (case kw of None \<Rightarrow> commit_defaults | Some a \<Rightarrow> a) = (Inr res, s', sent)
        \<and> map_of res ''index'' = Some ids \<and> length ids \<noteq> length ms \<longrightarrow>
        (\<exists>msg. fst (SessionModel_bulk_index cls e s h ms kw) = Inl (ValueError msg)))
   \<and> (Session_commit e (snd (index_all cls s h ms))
          (case kw of None \<Rightarrow> commit_defaults | Some a \<Rightarrow> a) = (Inr res, s', sent)
        \<and> map_of res ''index'' = None \<longrightarrow>
        SessionModel_bulk_index cls e s h ms kw = (Inl (KeyError ''index''), h, s', sent))
   \<and> (Session_commit e (snd (index_all cls s h ms))
          (case kw of None \<Rightarrow> commit_defaults | Some a \<Rightarrow> a) = (Inl err, s', sent) \<longrightarrow>
        SessionModel_bulk_index cls e s h ms kw = (Inl err, h, s', sent))"
proof -
  let ?a = "case kw of None \<Rightarrow> commit_defaults | Some a \<Rightarrow> a"
  let ?req = "\<lambda>r. [(''_index'', PStr (Meta_index (h r))), (''_op_type'', PStr ''index''),
                    (''_source'', PDict (to_es_body (h r)))]"
  let ?h' = "foldl (\<lambda>h p. set_id h (fst p) (snd p)) h (zip ms ids)"
  note enq = index_all_fresh [OF assms]
  note eq = SessionModel_bulk_index_valid [OF assms, of e kw]
  have calls: "\<exists>call. snd (snd (snd (SessionModel_bulk_index cls e s h ms kw))) = [call]
           \<and> bc_actions call = PList (map (\<lambda>r. PDict (?req r)) ms)"
    if "ms \<noteq> []" "truthy (raw_connection e)"
  proof -
    let ?s1 = "snd (index_all cls s h ms)"
    have a: "actions ?s1 = [(''index'', map ?req ms)]"
      using that enq by simp
    then have "Session_commit e ?s1 ?a =
      (case bulk_loop (async_streaming_bulk e (commit_call e ?s1 ?a)) ([], []) of
        Inl err \<Rightarrow> (Inl err, ?s1\<lparr>actions := []\<rparr>, [commit_call e ?s1 ?a])
      | Inr (res, errors) \<Rightarrow>
          if errors \<noteq> [] then
            (Inl (SessionError errors), ?s1\<lparr>actions := [], results := res\<rparr>,
             [commit_call e ?s1 ?a])
          else (Inr res, ?s1\<lparr>actions := [], results := res\<rparr>, [commit_call e ?s1 ?a]))"
      using that by (intro Session_commit_call) simp_all
    then have "snd (snd (Session_commit e ?s1 ?a)) = [commit_call e ?s1 ?a]"
      by (simp split: sum.splits prod.splits)
    then have "snd (snd (snd (SessionModel_bulk_index cls e s h ms kw))) = [commit_call e ?s1 ?a]"
      unfolding eq by (auto split: sum.splits prod.splits option.splits)
    moreover have "bc_actions (commit_call e ?s1 ?a) = PList (map (\<lambda>r. PDict (?req r)) ms)"
      using a by (simp add: commit_call_def Let_def comp_def)
    ultimately show ?thesis by blast
  qed
  have last: "?h' (ms ! k) = (h (ms ! k))\<lparr>model_id := ids ! k\<rparr>"
    if "length ids = length ms" "k < length ms"
       "\<forall>j. k < j \<and> j < length ms \<longrightarrow> ms ! j \<noteq> ms ! k" for k
    using that by (simp add: foldl_assign map_of_rev_zip_last)
  have dist: "map ?h' ms = map (\<lambda>(r, c). (h r)\<lparr>model_id := c\<rparr>) (zip ms ids)"
    if "length ids = length ms" "distinct ms"
  proof (rule nth_equalityI)
    show "length (map ?h' ms) = length (map (\<lambda>(r, c). (h r)\<lparr>model_id := c\<rparr>) (zip ms ids))"
      using that by simp
  next
    fix k assume "k < length (map ?h' ms)"
    then have k: "k < length ms" by simp
    have "\<forall>j. k < j \<and> j < length ms \<longrightarrow> ms ! j \<noteq> ms ! k"
      using that(2) k by (auto simp: nth_eq_iff_index_eq)
    from last [OF that(1) k this] k that(1)
    show "map ?h' ms ! k = map (\<lambda>(r, c). (h r)\<lparr>model_id := c\<rparr>) (zip ms ids) ! k"
      by simp
  qed
  have other: "?h' r = h r" if "r \<notin> set ms" for r
    using that by (simp add: foldl_assign map_of_rev_zip_none)
  have rest: "model_fields (?h' r) = model_fields (h r) \<and> Meta_index (?h' r) = Meta_index (h r)"
    for r
    by (simp add: foldl_assign split: option.splits)
  have ok: "SessionModel_bulk_index cls e s h ms kw = (Inr ms, ?h', s', sent)"
    if "Session_commit e (snd (index_all cls s h ms)) ?a = (Inr res, s', sent)"
      "map_of res ''index'' = Some ids" "length ids = length ms"
    unfolding eq using that by (simp add: assign_ids_positions)
  have bad: "\<exists>msg. fst (SessionModel_bulk_index cls e s h ms kw) = Inl (ValueError msg)"
    if "Session_commit e (snd (index_all cls s h ms)) ?a = (Inr res, s', sent)"
      "map_of res ''index'' = Some ids" "length ids \<noteq> length ms"
    unfolding eq using that by (simp add: assign_ids_positions)
  have key: "SessionModel_bulk_index cls e s h ms kw = (Inl (KeyError ''index''), h, s', sent)"
    if "Session_commit e (snd (index_all cls s h ms)) ?a = (Inr res, s', sent)"
      "map_of res ''index'' = None"
    unfolding eq using that by simp
  have err: "SessionModel_bulk_index cls e s h ms kw = (Inl err, h, s', sent)"
    if "Session_commit e (snd (index_all cls s h ms)) ?a = (Inl err, s', sent)"
    unfolding eq using that by simp
  have all: "SessionModel_bulk_index cls e s h ms kw = (Inr ms, ?h', s', sent)
        \<and> (\<forall>k < length ms. (\<forall>j. k < j \<and> j < length ms \<longrightarrow> ms ! j \<noteq> ms ! k) \<longrightarrow>
              fst (snd (SessionModel_bulk_index cls e s h ms kw)) (ms ! k) =
                (h (ms ! k))\<lparr>model_id := ids ! k\<rparr>)
        \<and> (distinct ms \<longrightarrow>
              map (fst (snd (SessionModel_bulk_index cls e s h ms kw))) ms =
                map (\<lambda>(r, c). (h r)\<lparr>model_id := c\<rparr>) (zip ms ids))
        \<and> (\<forall>r. r \<notin> set ms \<longrightarrow>
              fst (snd (SessionModel_bulk_index cls e s h ms kw)) r = h r)
        \<and> (\<forall>r. model_fields (fst (snd (SessionModel_bulk_index cls e s h ms kw)) r) =
                  model_fields (h r)
               \<and> Meta_index (fst (snd (SessionModel_bulk_index cls e s h ms kw)) r) =
                  Meta_index (h r))"
    if c: "Session_commit e (snd (index_all cls s h ms)) ?a = (Inr res, s', sent)"
      "map_of res ''index'' = Some ids" and l: "length ids = length ms"
  proof -
    note o = ok [OF c l]
    show ?thesis
      unfolding o using last [OF l] dist [OF l] other rest by simp
  qed
  from enq calls all bad key err show ?thesis by blast
qed

theorem bulk_index_assigns_ids_witness:
  "fst (SessionModel_bulk_index Shirt
          (answering [created ''index'' ''a1'', created ''index'' ''a2''])
          (Session_init (Some True)) two_shirts [0, 1] None)
     = Inr [0, 1]
   \<and> map (fst (snd (SessionModel_bulk_index Shirt
          (answering [created ''index'' ''a1'', created ''index'' ''a2''])
          (Session_init (Some True)) two_shirts [0, 1] None))) [0, 1]
     = [shirt (PStr ''a1'') ''Nike'' ''red'', shirt (PStr ''a2'') ''Zara'' ''black'']
   \<and> fst (snd (SessionModel_bulk_index Shirt
          (answering [created ''index'' ''a1'', created ''index'' ''a2''])
          (Session_init (Some True)) two_shirts [0, 0] None)) 0
     = shirt (PStr ''a2'') ''Nike'' ''red''"
proof -
  let ?e = "answering [created ''index'' ''a1'', created ''index'' ''a2'']"
  let ?s = "Session_init (Some True)"
  let ?res = "[(''index'', [PStr ''a1'', PStr ''a2''])]"
  let ?ids = "[PStr ''a1'', PStr ''a2'']"
  have fresh: "actions ?s = []"
    by (simp add: Session_init_def)
  have valid: "\<forall>r \<in> set ms. validate_model Shirt (two_shirts r) = Inr True" for ms
    by (simp add: validate_model_def Shirt_def shirt_def two_shirts_def model_dict_def)
  have c: "truthy (raw_connection ?e)"
    by (simp add: answering_def)
  have commit: "Session_commit ?e s1 commit_defaults =
      (Inr ?res, fst (snd (Session_commit ?e s1 commit_defaults)),
       snd (snd (Session_commit ?e s1 commit_defaults)))"
    if a: "actions s1 \<noteq> []" "concat (map snd (actions s1)) \<noteq> []" for s1
  proof -
    have "fst (Session_commit ?e s1 commit_defaults) = Inr ?res"
      by (simp add: Session_commit_call [OF a(1) c a(2)])
         (simp add: answering_def created_def bulk_step_def py_getitem_def)
    then show ?thesis by (metis prod.collapse)
  qed
  have run: "fst (SessionModel_bulk_index Shirt ?e ?s two_shirts ms None) = Inr ms
      \<and> fst (snd (SessionModel_bulk_index Shirt ?e ?s two_shirts ms None)) =
          foldl (\<lambda>h p. set_id h (fst p) (snd p)) two_shirts (zip ms ?ids)"
    if ms: "length ms = 2" for ms
  proof -
    define s1 where "s1 = snd (index_all Shirt ?s two_shirts ms)"
    note t = bulk_index_assigns_ids [OF fresh valid, where ms = ms and e = ?e and kw = None
        and res = ?res and ids = ?ids
        and s' = "fst (snd (Session_commit ?e s1 commit_defaults))"
        and sent = "snd (snd (Session_commit ?e s1 commit_defaults))", folded s1_def]
    from ms have "ms \<noteq> []" by auto
    with t have a: "actions s1 \<noteq> []" "concat (map snd (actions s1)) \<noteq> []"
      by (simp_all add: s1_def)
    from t commit [OF a] ms show ?thesis by simp
  qed
  from run [of "[0, 1]"] run [of "[0, 0]"] show ?thesis
    by (simp add: set_id_def two_shirts_def shirt_def)
qed

subsection \<open>Bulk indexing through the class\<close>

lemma Session_bulk_index_eval:
  "Session_bulk_index s bodies index =
     (map int [length (bucket (actions s) ''index'') ..<
               length (bucket (actions s) ''index'') + length bodies],
      s\<lparr>actions := foldl (\<lambda>d x. bucket_append ''index'' x d) (actions s)
          (map (\<lambda>body. [(''_index'', PStr index), (''_op_type'', PStr ''index''),
                         (''_source'', body)]) bodies)\<rparr>)"
proof (induction bodies arbitrary: s)
  case Nil
  then show ?case by simp
next
  case (Cons b bodies)
  then show ?case
    by (simp add: Session_index_eval bucket_append_same upt_first del: upt_Suc)
qed

lemma bulk_loop_successes:
  "bulk_loop (map (\<lambda>(i, x). Yield True [(k, PDict ((''_id'', i) # x))]) answers) (res, errs) =
     Inr (foldl (\<lambda>d i. bucket_append k i d) res (map fst answers), errs)"
  by (induction answers arbitrary: res)
     (simp_all add: bulk_step_def py_getitem_def split: prod.splits)

text \<open>
  C2, as the code has it. For a collection that is not empty and a connected client,
  the class method \<open>bulk_index\<close> makes one call to the bulk helper, with the index
  mutations of the records in input order and with \<open>refresh = "true"\<close>; when the helper
  answers every mutation with a success, it returns the identifiers of the answers in
  that order. The records passed in are not changed: no identifier is assigned to them.
\<close>

theorem class_bulk_index_returns_ids:
  assumes "collection \<noteq> []" and "truthy (raw_connection e)"
  shows
  "fst (snd (ESModel_bulk_index e index collection)) = collection
   \<and> (\<exists>call. snd (snd (ESModel_bulk_index e index collection)) = [call]
        \<and> bc_actions call =
            PList (map (\<lambda>body. PDict [(''_index'', PStr index), (''_op_type'', PStr ''index''),
                                      (''_source'', body)]) collection)
        \<and> map_of (bc_kwargs call) ''refresh'' = Some (PStr ''true'')
        \<and> (async_streaming_bulk e call =
              map (\<lambda>(i, x). Yield True [(''index'', PDict ((''_id'', i) # x))]) answers
            \<and> length answers = length collection \<longrightarrow>
            fst (ESModel_bulk_index e index collection) = Inr (map fst answers)))"
proof -
  let ?req = "\<lambda>body. [(''_index'', PStr index), (''_op_type'', PStr ''index''),
                       (''_source'', body)]"
  define s1 where "s1 = snd (Session_bulk_index (Session_aenter (Session_init (Some True)))
    collection index)"
  have s1: "actions s1 = [(''index'', map ?req collection)]" "s_refresh s1 = Some True"
    using assms(1)
    by (simp_all add: s1_def Session_bulk_index_eval Session_aenter_def Session_init_def
        foldl_bucket_append_empty)
  let ?call = "commit_call e s1 commit_defaults"
  have commit: "Session_commit e s1 commit_defaults =
     (case bulk_loop (async_streaming_bulk e ?call) ([], []) of
        Inl err \<Rightarrow> (Inl err, s1\<lparr>actions := []\<rparr>, [?call])
      | Inr (res, errors) \<Rightarrow>
          if errors \<noteq> [] then
            (Inl (SessionError errors), s1\<lparr>actions := [], results := res\<rparr>, [?call])
          else (Inr res, s1\<lparr>actions := [], results := res\<rparr>, [?call]))"
    using assms s1 by (intro Session_commit_call) simp_all
  have eq: "ESModel_bulk_index e index collection =
     (case Session_commit e s1 commit_defaults of
        (Inl err, s2, sent) \<Rightarrow> (Inl err, collection, sent)
      | (Inr res, s2, sent) \<Rightarrow>
          (case map_of res ''index'' of
             None \<Rightarrow> (Inl (KeyError ''index''), collection, sent)
           | Some ids \<Rightarrow> (Inr ids, collection, sent)))"
    by (simp add: ESModel_bulk_index_def s1_def Let_def split: prod.splits sum.splits)
  have 1: "fst (snd (ESModel_bulk_index e index collection)) = collection"
    unfolding eq by (simp split: prod.splits sum.splits option.splits)
  have 2: "snd (snd (ESModel_bulk_index e index collection)) = [?call]"
    unfolding eq commit by (simp split: prod.splits sum.splits option.splits)
  have 3: "bc_actions ?call = PList (map (\<lambda>body. PDict (?req body)) collection)"
    using s1 by (simp add: commit_call_def Let_def comp_def)
  have 4: "map_of (bc_kwargs ?call) ''refresh'' = Some (PStr ''true'')"
    using s1
    by (simp add: commit_call_def Let_def AList.update_conv' map_of_dict_exclude
        commit_kwargs_refresh commit_defaults_def py_or_def refresh_keyword_def str_bool_def
        lower_True)
  have 5: "fst (ESModel_bulk_index e index collection) = Inr (map fst answers)"
    if "async_streaming_bulk e ?call =
          map (\<lambda>(i, x). Yield True [(''index'', PDict ((''_id'', i) # x))]) answers"
       "length answers = length collection"
  proof -
    from that(2) assms(1) have "answers \<noteq> []" by auto
    then show ?thesis
      unfolding eq commit that(1) bulk_loop_successes
      by (simp add: foldl_bucket_append_empty)
  qed
  from 1 2 3 4 5 show ?thesis by blast
qed

theorem class_bulk_index_returns_ids_witness:
  "fst (ESModel_bulk_index (answering [created ''index'' ''a1'', created ''index'' ''a2''])
          ''shirts''
          [PDict [(''brand'', PStr ''Nike''), (''color'', PStr ''red'')],
           PDict [(''brand'', PStr ''Zara''), (''color'', PStr ''black'')]])
     = Inr [PStr ''a1'', PStr ''a2'']"
proof -
  let ?e = "answering [created ''index'' ''a1'', created ''index'' ''a2'']"
  let ?c = "[PDict [(''brand'', PStr ''Nike''), (''color'', PStr ''red'')],
             PDict [(''brand'', PStr ''Zara''), (''color'', PStr ''black'')]]"
  let ?answers = "[(PStr ''a1'', [(''status'', PInt 201)]), (PStr ''a2'', [(''status'', PInt 201)])]"
  have c: "?c \<noteq> []" and e: "truthy (raw_connection ?e)"
    by (simp_all add: answering_def)
  have h: "async_streaming_bulk ?e call =
      map (\<lambda>(i, x). Yield True [(''index'', PDict ((''_id'', i) # x))]) ?answers" for call
    by (simp add: answering_def created_def)
  from class_bulk_index_returns_ids [OF c e, of "''shirts''" ?answers] h
  show ?thesis by auto
qed

text \<open>
  C2 as stated fails: after the class method has returned the identifier that the
  store assigned, the record passed in still has no \<open>id\<close>.
\<close>

theorem class_bulk_index_assigns_no_id:
  "fst (ESModel_bulk_index (answering [created ''index'' ''a1'']) ''shirts''
          [PDict [(''brand'', PStr ''Nike''), (''color'', PStr ''red'')]])
     = Inr [PStr ''a1'']
   \<and> map record_id
        (fst (snd (ESModel_bulk_index (answering [created ''index'' ''a1'']) ''shirts''
                     [PDict [(''brand'', PStr ''Nike''), (''color'', PStr ''red'')]])))
     = [PNone]"
  by (simp add: ESModel_bulk_index_def Session_index_eval Session_aenter_def Session_init_def
      Session_commit_call answering_def created_def bulk_step_def py_getitem_def
      record_id_def bucket_def Let_def)

subsection \<open>Failures of a commit\<close>

lemma commit_kwargs_chunk_size:
  "map_of (commit_kwargs e s a) ''chunk_size'' =
     (case chunk_size a of
        None \<Rightarrow> None
      | Some n \<Rightarrow> if n \<noteq> 0 then Some (PInt n) else None)"
  by (simp add: commit_kwargs_def Let_def map_of_filter_values distinct_dict_literal
      map_of_dict_literal split: option.splits)

text \<open>
  No call that a commit makes to the bulk helper carries \<open>raise_on_error\<close>: the helper
  always runs with its default, which raises at the first chunk that has a failure.
\<close>

lemma commit_call_raise_on_error:
  "map_of (bc_kwargs (commit_call e s a)) ''raise_on_error'' = None"
  by (simp add: commit_call_def Let_def AList.update_conv' map_of_dict_exclude
      commit_kwargs_dropped)

lemma commit_call_chunk_size:
  "map_of (bc_kwargs (commit_call e s a)) ''chunk_size'' =
     (case chunk_size a of
        None \<Rightarrow> None
      | Some n \<Rightarrow> if n \<noteq> 0 then Some (PInt n) else None)"
  by (simp add: commit_call_def Let_def AList.update_conv' map_of_dict_exclude
      commit_kwargs_chunk_size)

lemma commit_call_actions:
  "bc_actions (commit_call e s a) = PList (map PDict (concat (map snd (actions s))))"
  by (simp add: commit_call_def Let_def)

lemma Session_delete_eval:
  "Session_delete s ident index =
     (int (length (bucket (actions s) ''delete'')),
      s\<lparr>actions := bucket_append ''delete''
          [(''_id'', ident), (''_index'', PStr index), (''_op_type'', PStr ''delete'')]
          (actions s)\<rparr>)"
  by (simp add: Session_delete_def Session_action_eval Let_def dict_literal_def)

text \<open>
  C3, at a failing input. A session commits three deletes of documents that do not
  exist (the scenario of \<open>test_session_model_delete_with_bulk_error\<close>, which commits
  ten). The \<open>SessionError\<close> that is raised lists one failure under \<open>delete\<close>, the first,
  and not three: \<open>raise_on_error: False\<close> is dropped from the keywords as a falsy item,
  the helper raises \<open>BulkIndexError\<close> for the chunk, and \<open>async_bulk\<close> keeps \<open>e.errors[0]\<close>
  only.
\<close>

theorem commit_reports_first_failure_only:
  "fst (Session_commit empty_store
          (snd (run_calls (Session_init (Some False))
             [Delete (PStr ''1'') ''shirts'', Delete (PStr ''2'') ''shirts'',
              Delete (PStr ''3'') ''shirts'']))
          commit_defaults)
     = Inl (SessionError
         [(''delete'',
           [PDict [(''_id'', PStr ''1''), (''status'', PInt 404),
                   (''result'', PStr ''not_found'')]])])"
proof -
  define s where "s = snd (run_calls (Session_init (Some False))
             [Delete (PStr ''1'') ''shirts'', Delete (PStr ''2'') ''shirts'',
              Delete (PStr ''3'') ''shirts''])"
  have a: "actions s =
     [(''delete'',
       [[(''_id'', PStr ''1''), (''_index'', PStr ''shirts''), (''_op_type'', PStr ''delete'')],
        [(''_id'', PStr ''2''), (''_index'', PStr ''shirts''), (''_op_type'', PStr ''delete'')],
        [(''_id'', PStr ''3''), (''_index'', PStr ''shirts''), (''_op_type'', PStr ''delete'')]])]"
    by (simp add: s_def Session_delete_eval Session_init_def Let_def)
  have c: "truthy (raw_connection empty_store)"
    by (simp add: empty_store_def)
  have ev: "async_streaming_bulk empty_store (commit_call empty_store s commit_defaults) =
      [RaiseBulkIndexError (map not_found (map PDict (concat (map snd (actions s)))))]"
    by (simp add: empty_store_def missing_documents_def commit_call_actions
        commit_call_raise_on_error commit_call_chunk_size commit_defaults_def a Let_def)
  have "fst (Session_commit empty_store s commit_defaults) =
      Inl (SessionError
         [(''delete'',
           [PDict [(''_id'', PStr ''1''), (''status'', PInt 404),
                   (''result'', PStr ''not_found'')]])])"
    using a c
    by (subst Session_commit_call)
       (simp_all add: ev bulk_step_def not_found_def py_getitem_def)
  then show ?thesis by (simp add: s_def)
qed

text \<open>
  The same holds for any number of deletes: whatever the size of the bucket, one
  failure is reported.
\<close>

lemma commit_reports_one_failure_of_many:
  assumes "actions s = [(''delete'', request # requests)]"
  shows "\<exists>failure. fst (Session_commit empty_store s commit_defaults) =
           Inl (SessionError [(''delete'', [failure])])"
proof -
  have c: "truthy (raw_connection empty_store)"
    by (simp add: empty_store_def)
  have ev: "async_streaming_bulk empty_store (commit_call empty_store s commit_defaults) =
      [RaiseBulkIndexError (take 500 (map not_found (map PDict (request # requests))))]"
    by (simp add: empty_store_def missing_documents_def commit_call_actions
        commit_call_raise_on_error commit_call_chunk_size commit_defaults_def assms Let_def)
  show ?thesis
    using assms c
    by (subst Session_commit_call)
       (simp_all add: ev bulk_step_def not_found_def)
qed

text \<open>
  Had \<open>raise_on_error = False\<close> reached the helper, the same three deletes would have
  given three failures under \<open>delete\<close>.
\<close>

lemma async_bulk_without_raise_on_error:
  "fst (async_bulk missing_documents
     [(''client'', PObject ''AsyncElasticsearch''),
      (''actions'', PList
         [PDict [(''_id'', PStr ''1''), (''_index'', PStr ''shirts''), (''_op_type'', PStr ''delete'')],
          PDict [(''_id'', PStr ''2''), (''_index'', PStr ''shirts''), (''_op_type'', PStr ''delete'')],
          PDict [(''_id'', PStr ''3''), (''_index'', PStr ''shirts''), (''_op_type'', PStr ''delete'')]]),
      (''refresh'', PStr ''false''),
      (''raise_on_error'', PBool False)])
   = Inr ([], [(''delete'',
       [PDict [(''_id'', PStr ''1''), (''status'', PInt 404), (''result'', PStr ''not_found'')],
        PDict [(''_id'', PStr ''2''), (''status'', PInt 404), (''result'', PStr ''not_found'')],
        PDict [(''_id'', PStr ''3''), (''status'', PInt 404), (''result'', PStr ''not_found'')]])])"
  by (simp add: async_bulk_def missing_documents_def Let_def dict_exclude_def bulk_step_def
      not_found_def py_getitem_def)

subsection \<open>Records from hits\<close>

text \<open>
  C7. \<open>from_es\<close> returns \<open>None\<close> for an empty hit. For a hit that is not empty it
  raises \<open>InvalidElasticsearchResponse\<close> when the hit lacks a source body or lacks an
  identifier: the key is absent, or what it holds is empty (\<open>not source or not _id\<close>).
  Otherwise it returns the record that the class constructs from the source body (its
  validation included), with the identifier of the hit assigned to the field \<open>id\<close>.
\<close>

theorem from_es_cases:
  "from_es cls [] = Inr None
   \<and> (data \<noteq> [] \<and> (map_of data ''_source'' = None \<or> map_of data ''_id'' = None) \<longrightarrow>
        from_es cls data = Inl InvalidElasticsearchResponse)
   \<and> (data \<noteq> [] \<and> ((\<forall>v. map_of data ''_source'' = Some v \<longrightarrow> \<not> truthy v)
                    \<or> (\<forall>v. map_of data ''_id'' = Some v \<longrightarrow> \<not> truthy v)) \<longrightarrow>
        from_es cls data = Inl InvalidElasticsearchResponse)
   \<and> (data \<noteq> [] \<and> map_of data ''_source'' = Some (PDict src) \<and> src \<noteq> []
        \<and> map_of data ''_id'' = Some ident \<and> truthy ident \<longrightarrow>
        from_es cls data =
          (case cls src of Inl e \<Rightarrow> Inl e | Inr m \<Rightarrow> Inr (Some (m\<lparr>model_id := ident\<rparr>))))"
proof -
  have 1: "from_es cls [] = Inr None"
    by (simp add: from_es_def)
  have 2: "from_es cls data = Inl InvalidElasticsearchResponse"
    if "data \<noteq> []" "map_of data ''_source'' = None \<or> map_of data ''_id'' = None"
    using that by (auto simp: from_es_def Let_def)
  have 3: "from_es cls data = Inl InvalidElasticsearchResponse"
    if "data \<noteq> []" "(\<forall>v. map_of data ''_source'' = Some v \<longrightarrow> \<not> truthy v)
                    \<or> (\<forall>v. map_of data ''_id'' = Some v \<longrightarrow> \<not> truthy v)"
    using that by (auto simp: from_es_def Let_def split: option.splits)
  have 4: "from_es cls data =
          (case cls src of Inl e \<Rightarrow> Inl e | Inr m \<Rightarrow> Inr (Some (m\<lparr>model_id := ident\<rparr>)))"
    if "data \<noteq> []" "map_of data ''_source'' = Some (PDict src)" "src \<noteq> []"
       "map_of data ''_id'' = Some ident" "truthy ident"
    using that by (simp add: from_es_def Let_def)
  from 1 2 3 4 show ?thesis by blast
qed

theorem from_es_cases_witness:
  "from_es Shirt [(''_id'', PStr ''7'')] = Inl InvalidElasticsearchResponse
   \<and> from_es Shirt [(''_id'', PStr ''7''), (''_source'', PDict [])]
       = Inl InvalidElasticsearchResponse
   \<and> from_es Shirt
        [(''_index'', PStr ''shirts''), (''_id'', PStr ''7''),
         (''_source'', PDict [(''brand'', PStr ''Nike''), (''color'', PStr ''red'')])]
       = Inr (Some (shirt (PStr ''7'') ''Nike'' ''red''))"
proof -
  let ?src = "[(''brand'', PStr ''Nike''), (''color'', PStr ''red'')]"
  let ?hit = "[(''_index'', PStr ''shirts''), (''_id'', PStr ''7''), (''_source'', PDict ?src)]"
  have "from_es Shirt [(''_id'', PStr ''7'')] = Inl InvalidElasticsearchResponse"
    using from_es_cases [of Shirt "[(''_id'', PStr ''7'')]"] by simp
  moreover have "from_es Shirt [(''_id'', PStr ''7''), (''_source'', PDict [])]
       = Inl InvalidElasticsearchResponse"
    using from_es_cases [of Shirt "[(''_id'', PStr ''7''), (''_source'', PDict [])]"] by simp
  moreover have "from_es Shirt ?hit = Inr (Some (shirt (PStr ''7'') ''Nike'' ''red''))"
    using from_es_cases [of Shirt ?hit ?src "PStr ''7''"]
    by (simp add: Shirt_def shirt_def)
  ultimately show ?thesis by simp
qed

subsection \<open>The alias request of a migration\<close>

text \<open>
  With \<open>update_alias\<close> set, a migration sends exactly one alias request, as its last
  request: first the removal of the alias from the indices that match the pattern,
  then its addition to the new index. What the store does with this request, and what
  a concurrent reader of the store sees meanwhile, is not part of this code.
\<close>

lemma migrate_alias_request:
  "filter is_alias_update (snd (migrate index_name now res_index move_data True)) =
     [UpdateAliases [Remove index_name (index_name @ ''-*''),
                     Add index_name (replace_star (index_name @ ''-*'') now)]]
   \<and> last (snd (migrate index_name now res_index move_data True)) =
     UpdateAliases [Remove index_name (index_name @ ''-*''),
                    Add index_name (replace_star (index_name @ ''-*'') now)]"
  by (simp add: migrate_def pattern_def alias_of_def Let_def)

lemma migrate_without_alias_update:
  "filter is_alias_update (snd (migrate index_name now res_index move_data False)) = []"
  by (simp add: migrate_def Let_def)

end
